theory Spec2Isabelle
  imports Complex_Main
begin

section \<open>The glucose minimal model of \<^verbatim>\<open>colab/chap18.ipynb\<close>\<close>

text \<open>
  The notebook defines four functions: \<^verbatim>\<open>make_system\<close>, \<^verbatim>\<open>update_func\<close>,
  \<^verbatim>\<open>run_simulation\<close> and \<^verbatim>\<open>slope_func\<close>. Everything else it calls
  (\<^verbatim>\<open>interpolate\<close>, \<^verbatim>\<open>linrange\<close>, \<^verbatim>\<open>TimeFrame\<close>, \<^verbatim>\<open>run_ode_solver\<close>, the pandas
  table) comes from \<^verbatim>\<open>from modsim import *\<close>.

  Python's numbers are idealised as \<^typ>\<open>real\<close>: the theorems below are about the
  arithmetic the code writes down, not about rounding.
\<close>

subsection \<open>Data\<close>

text \<open>
  The exceptions that can leave the modelled code: a failed query of the forcing signal
  (whatever the signal raises; \<open>DomainError\<close> is the name the taxonomy gives it), a
  missing label in a table (\<open>KeyError\<close>), a position that does not exist (\<open>IndexError\<close>).
  \<open>ConfigurationError\<close> and \<open>NumericalError\<close> are the two other names of the taxonomy.
  \<open>NonScalar\<close> is not an exception of Python: it marks a lookup in a table whose result
  is not a number (see \<open>series_getitem\<close> below).
\<close>

datatype error =
  DomainError | KeyError | IndexError | ConfigurationError | NumericalError | NonScalar

text \<open>\<^verbatim>\<open>Params(G0 = 290, k1 = 0.03, k2 = 0.02, k3 = 1e-05)\<close>\<close>

record params =
  G0 :: real
  k1 :: real
  k2 :: real
  k3 :: real

text \<open>\<^verbatim>\<open>State(G=..., X=...)\<close>\<close>

record state =
  G :: real
  X :: real

text \<open>
  \<^verbatim>\<open>System(params, init=init, Gb=Gb, Ib=Ib, I=I, t_0=t_0, t_end=t_end, dt=2)\<close>: the fields
  of the parameters, extended by the keyword arguments. The forcing signal \<open>I\<close> is a
  function object; a query that raises is \<open>Inl\<close>.
\<close>

record system = params +
  init :: state
  Gb :: real
  Ib :: real
  I :: "real \<Rightarrow> error + real"
  t_0 :: real
  t_end :: real
  dt :: real

subsection \<open>\<^verbatim>\<open>update_func\<close> and \<^verbatim>\<open>slope_func\<close>\<close>

text \<open>
  \<^verbatim>\<open>
  def update_func(state, t, system):
      G, X = state
      k1, k2, k3 = system.k1, system.k2, system.k3
      I, Ib, Gb = system.I, system.Ib, system.Gb
      dt = system.dt
      dGdt = -k1 * (G - Gb) - X*G
      dXdt = k3 * (I(t) - Ib) - k2 * X
      G += dGdt * dt
      X += dXdt * dt
      return State(G=G, X=X)
  \<close>
  The only call that can raise is \<open>I(t)\<close>; there is no handler, so its exception leaves
  the function.
\<close>

definition update_func :: "state \<Rightarrow> real \<Rightarrow> system \<Rightarrow> error + state" where
  "update_func st t sys =
     (let dGdt = - k1 sys * (G st - Gb sys) - X st * G st in
      case I sys t of
        Inl e \<Rightarrow> Inl e
      | Inr It \<Rightarrow>
          (let dXdt = k3 sys * (It - Ib sys) - k2 sys * X st in
           Inr \<lparr>G = G st + dGdt * dt sys, X = X st + dXdt * dt sys\<rparr>))"

text \<open>
  \<^verbatim>\<open>
  def slope_func(state, t, system):
      G, X = state
      k1, k2, k3 = system.k1, system.k2, system.k3
      I, Ib, Gb = system.I, system.Ib, system.Gb
      dGdt = -k1 * (G - Gb) - X*G
      dXdt = k3 * (I(t) - Ib) - k2 * X
      return dGdt, dXdt
  \<close>
\<close>

definition slope_func :: "state \<Rightarrow> real \<Rightarrow> system \<Rightarrow> error + (real \<times> real)" where
  "slope_func st t sys =
     (let dGdt = - k1 sys * (G st - Gb sys) - X st * G st in
      case I sys t of
        Inl e \<Rightarrow> Inl e
      | Inr It \<Rightarrow>
          (let dXdt = k3 sys * (It - Ib sys) - k2 sys * X st in
           Inr (dGdt, dXdt)))"

text \<open>A system used to run the definitions: the notebook's parameters, a signal defined on
  the interval from 0 to 182 only.\<close>

definition example_signal :: "real \<Rightarrow> error + real" where
  "example_signal t = (if 0 \<le> t \<and> t \<le> 182 then Inr (11 + t / 2) else Inl DomainError)"

definition example_system :: system where
  "example_system =
     \<lparr>G0 = 290, k1 = 3 / 100, k2 = 2 / 100, k3 = 1 / 100000,
      init = \<lparr>G = 290, X = 0\<rparr>, Gb = 92, Ib = 11, I = example_signal,
      t_0 = 0, t_end = 6, dt = 2\<rparr>"

text \<open>The same system with the three rate constants set to zero.\<close>

definition decoupled_system :: system where
  "decoupled_system = example_system\<lparr>k1 := 0, k2 := 0, k3 := 0\<rparr>"

subsection \<open>The trajectory: a \<^verbatim>\<open>TimeFrame\<close>\<close>

text \<open>
  Modelled from the spec: \<^verbatim>\<open>TimeFrame\<close> is a class of the \<^verbatim>\<open>modsim\<close> library (a pandas
  table) and is not in the notebook. Section 3 of the specification: a trajectory is "an
  ordered mapping from time to state, one entry per discretization point, built
  incrementally by the driver". It is a table of rows labelled by time, in the order the
  labels were first written. \<^verbatim>\<open>frame.row[t]\<close> reads the row labelled \<open>t\<close> and raises
  \<open>KeyError\<close> when there is none; \<^verbatim>\<open>frame.row[t] = s\<close> overwrites the row labelled \<open>t\<close>
  where it stands, or appends a new row at the end.
\<close>

type_synonym frame = "(real \<times> state) list"

fun row_get :: "frame \<Rightarrow> real \<Rightarrow> error + state" where
  "row_get [] t = Inl KeyError"
| "row_get ((k, s) # fr) t = (if k = t then Inr s else row_get fr t)"

fun row_set :: "frame \<Rightarrow> real \<Rightarrow> state \<Rightarrow> frame" where
  "row_set [] t s = [(t, s)]"
| "row_set ((k, s') # fr) t s = (if k = t then (k, s) # fr else (k, s') # row_set fr t s)"

subsection \<open>\<^verbatim>\<open>linrange\<close>\<close>

text \<open>
  Modelled from the spec: \<^verbatim>\<open>linrange\<close> belongs to the \<^verbatim>\<open>modsim\<close> library and is not in
  the notebook. Section 4.2 of the specification gives the times the driver iterates over:
  "iterate over t in {t_0, t_0+dt, ...} while t < t_end". That is a loop which adds the step
  until the stop is reached or passed; with a step that is not positive and a start below
  the stop it never ends, which is the value \<open>None\<close> here.
\<close>

partial_function (option) linrange :: "real \<Rightarrow> real \<Rightarrow> real \<Rightarrow> real list option" where
  [code]: "linrange start stop step =
     (if start < stop
      then Option.bind (linrange (start + step) stop step) (\<lambda>ts. Some (start # ts))
      else Some [])"

subsection \<open>\<^verbatim>\<open>run_simulation\<close>\<close>

text \<open>
  \<^verbatim>\<open>
  def run_simulation(system, update_func):
      init = system.init
      t_0, t_end, dt = system.t_0, system.t_end, system.dt
      frame = TimeFrame(columns=init.index)
      frame.row[t_0] = init
      ts = linrange(t_0, t_end, dt)
      for t in ts:
          frame.row[t+dt] = update_func(frame.row[t], t, system)
      return frame
  \<close>
  The body of the \<^verbatim>\<open>for\<close> loop is \<open>for_loop\<close>: it reads the row at \<open>t\<close>, calls the update
  function and writes the row at \<open>t + dt\<close>; an exception of the read or of the update
  function ends the run.
\<close>

type_synonym update = "state \<Rightarrow> real \<Rightarrow> system \<Rightarrow> error + state"

fun for_loop :: "system \<Rightarrow> update \<Rightarrow> real list \<Rightarrow> frame \<Rightarrow> error + frame" where
  "for_loop sys uf [] frame = Inr frame"
| "for_loop sys uf (t # ts) frame =
     (case row_get frame t of
        Inl e \<Rightarrow> Inl e
      | Inr st \<Rightarrow>
          (case uf st t sys of
             Inl e \<Rightarrow> Inl e
           | Inr st' \<Rightarrow> for_loop sys uf ts (row_set frame (t + dt sys) st')))"

text \<open>The result is \<open>None\<close> when the call does not return, \<open>Some (Inl e)\<close> when it raises
  \<open>e\<close>, \<open>Some (Inr frame)\<close> when it returns the trajectory.\<close>

definition run_simulation :: "system \<Rightarrow> update \<Rightarrow> (error + frame) option" where
  "run_simulation sys uf =
     (let frame = row_set [] (t_0 sys) (init sys) in
      case linrange (t_0 sys) (t_end sys) (dt sys) of
        None \<Rightarrow> None
      | Some ts \<Rightarrow> Some (for_loop sys uf ts frame))"

text \<open>
  Two auxiliary functions describe what the loop computes. \<open>grid a h n\<close> is the list of
  the \<open>n\<close> times \<open>a, a + h, ...\<close>; \<open>steps uf sys t st n\<close> is the trajectory of \<open>n\<close> updates that
  starts in state \<open>st\<close> at time \<open>t\<close>.
\<close>

fun grid :: "real \<Rightarrow> real \<Rightarrow> nat \<Rightarrow> real list" where
  "grid a h 0 = []"
| "grid a h (Suc n) = a # grid (a + h) h n"

fun steps :: "update \<Rightarrow> system \<Rightarrow> real \<Rightarrow> state \<Rightarrow> nat \<Rightarrow> error + frame" where
  "steps uf sys t st 0 = Inr [(t, st)]"
| "steps uf sys t st (Suc n) =
     (case uf st t sys of
        Inl e \<Rightarrow> Inl e
      | Inr st' \<Rightarrow>
          (case steps uf sys (t + dt sys) st' n of
             Inl e \<Rightarrow> Inl e
           | Inr rest \<Rightarrow> Inr ((t, st) # rest)))"

definition n_steps :: "system \<Rightarrow> nat" where
  "n_steps sys = nat \<lceil>(t_end sys - t_0 sys) / dt sys\<rceil>"

text \<open>The example system with an end time that is not a whole number of steps away from
  the start, and with an end time equal to the start time.\<close>

definition overshoot_system :: system where
  "overshoot_system = example_system\<lparr>t_end := 3\<rparr>"


subsection \<open>\<^verbatim>\<open>run_ode_solver\<close>\<close>

text \<open>
  The notebook calls \<^verbatim>\<open>run_ode_solver(system, slope_func)\<close> and says that it "is another
  name for \<^verbatim>\<open>run_ralston\<close>"; the function itself is in the library. A slope function
  returns a pair of derivatives; \<open>project st h sl\<close> is the state \<open>st + h * sl\<close>.
\<close>

type_synonym slope = "state \<Rightarrow> real \<Rightarrow> system \<Rightarrow> error + (real \<times> real)"

definition project :: "state \<Rightarrow> real \<Rightarrow> real \<times> real \<Rightarrow> state" where
  "project st h sl = \<lparr>G = G st + h * fst sl, X = X st + h * snd sl\<rparr>"

text \<open>
  Modelled from the spec: the single step of \<^verbatim>\<open>run_ode_solver\<close>, which is not in the
  notebook. Section 4.4 of the specification: "k1 = f(state, t);
  k2 = f(state + (3/4)*dt*k1, t + (3/4)*dt); state_next = state + dt * (1/3 * k1 + 2/3 * k2)".
  The two slopes are called \<open>s1\<close> and \<open>s2\<close> here, \<open>k1\<close> and \<open>k2\<close> being fields of the system.
\<close>

definition ralston_step :: "slope \<Rightarrow> update" where
  "ralston_step f st t sys =
     (case f st t sys of
        Inl e \<Rightarrow> Inl e
      | Inr s1 \<Rightarrow>
          (case f (project st (3 / 4 * dt sys) s1) (t + 3 / 4 * dt sys) sys of
             Inl e \<Rightarrow> Inl e
           | Inr s2 \<Rightarrow>
               Inr (project st (dt sys)
                      (1 / 3 * fst s1 + 2 / 3 * fst s2, 1 / 3 * snd s1 + 2 / 3 * snd s2))))"

record details =
  step_count :: nat

text \<open>
  Modelled from the spec: the driver \<^verbatim>\<open>run_ode_solver\<close>, which is not in the notebook.
  Section 4.4 of the specification: "Driver loop: same stepping discipline as 4.2,
  substituting this update rule. Returns both the trajectory and a diagnostics record
  (step count, ...)".
\<close>

definition run_ode_solver :: "system \<Rightarrow> slope \<Rightarrow> (error + frame \<times> details) option" where
  "run_ode_solver sys f =
     (case run_simulation sys (ralston_step f) of
        None \<Rightarrow> None
      | Some (Inl e) \<Rightarrow> Some (Inl e)
      | Some (Inr frame) \<Rightarrow> Some (Inr (frame, \<lparr>step_count = length frame - 1\<rparr>)))"

subsection \<open>\<^verbatim>\<open>make_system\<close>\<close>

text \<open>
  The data is a pandas table read with \<^verbatim>\<open>pd.read_csv(filename, index_col='time')\<close>: rows
  labelled by their time, with the columns \<open>glucose\<close> and \<open>insulin\<close>. A row is the triple
  of its label and its two values; a column is the list of the labelled values.
\<close>

type_synonym series = "(real \<times> real) list"
type_synonym dataframe = "(real \<times> real \<times> real) list"

definition glucose :: "dataframe \<Rightarrow> series" where
  "glucose data = map (\<lambda>(t, g, i). (t, g)) data"

definition insulin :: "dataframe \<Rightarrow> series" where
  "insulin data = map (\<lambda>(t, g, i). (t, i)) data"

text \<open>
  \<^verbatim>\<open>data.glucose[0]\<close> indexes a column whose index is numeric, which pandas reads as the
  label \<open>0\<close>, not as a position: it is the value of the row labelled \<open>0\<close>, and a
  \<open>KeyError\<close> when no row has that label. Where several rows have the label, pandas
  returns the sub-column of these rows instead of a number; a baseline that is not a
  number is outside this model, and \<open>NonScalar\<close> stands for it.
\<close>

definition series_getitem :: "series \<Rightarrow> real \<Rightarrow> error + real" where
  "series_getitem s key =
     (case filter (\<lambda>(l, v). l = key) s of
        [] \<Rightarrow> Inl KeyError
      | [(l, v)] \<Rightarrow> Inr v
      | _ \<Rightarrow> Inl NonScalar)"

text \<open>
  Modelled from the spec: \<^verbatim>\<open>get_first_label\<close> and \<^verbatim>\<open>get_last_label\<close> are functions of
  the library, not in the notebook. Section 6 of the specification: the table has "a time
  column usable as the integration domain bounds"; with the functions' names, they are the
  first and the last label of the table's index, and there is none in an empty table.
\<close>

definition get_first_label :: "dataframe \<Rightarrow> error + real" where
  "get_first_label data = (case data of [] \<Rightarrow> Inl IndexError | r # _ \<Rightarrow> Inr (fst r))"

definition get_last_label :: "dataframe \<Rightarrow> error + real" where
  "get_last_label data = (case data of [] \<Rightarrow> Inl IndexError | _ # _ \<Rightarrow> Inr (fst (last data)))"

text \<open>
  \<^verbatim>\<open>
  def make_system(params, data):
      G0, k1, k2, k3 = params
      Gb = data.glucose[0]
      Ib = data.insulin[0]
      I = interpolate(data.insulin)
      t_0 = get_first_label(data)
      t_end = get_last_label(data)
      init = State(G=G0, X=0)
      return System(params,
                    init=init, Gb=Gb, Ib=Ib, I=I,
                    t_0=t_0, t_end=t_end, dt=2)
  \<close>
  \<^verbatim>\<open>interpolate\<close> is the library's; it is a parameter here, a function from a column to a
  signal that may itself raise.
\<close>

type_synonym signal = "real \<Rightarrow> error + real"

definition make_system ::
  "(series \<Rightarrow> error + signal) \<Rightarrow> params \<Rightarrow> dataframe \<Rightarrow> error + system" where
  "make_system interpolate params data =
     (case series_getitem (glucose data) 0 of
        Inl e \<Rightarrow> Inl e
      | Inr Gb' \<Rightarrow>
     (case series_getitem (insulin data) 0 of
        Inl e \<Rightarrow> Inl e
      | Inr Ib' \<Rightarrow>
     (case interpolate (insulin data) of
        Inl e \<Rightarrow> Inl e
      | Inr I' \<Rightarrow>
     (case get_first_label data of
        Inl e \<Rightarrow> Inl e
      | Inr t_0' \<Rightarrow>
     (case get_last_label data of
        Inl e \<Rightarrow> Inl e
      | Inr t_end' \<Rightarrow>
          (let init' = \<lparr>G = G0 params, X = 0\<rparr> in
           Inr \<lparr>G0 = G0 params, k1 = k1 params, k2 = k2 params, k3 = k3 params,
                init = init', Gb = Gb', Ib = Ib', I = I',
                t_0 = t_0', t_end = t_end', dt = 2\<rparr>))))))"

text \<open>
  Data to run \<open>make_system\<close> on: the notebook's parameters, the first rows of the glucose
  and insulin measurements, a table whose first sample is taken before time \<open>0\<close>, and a
  piecewise linear interpolation that is defined between the first and the last label only.
\<close>

definition example_params :: params where
  "example_params = \<lparr>G0 = 290, k1 = 3 / 100, k2 = 2 / 100, k3 = 1 / 100000\<rparr>"

definition example_data :: dataframe where
  "example_data = [(0, 92, 11), (2, 350, 26), (4, 287, 130), (6, 251, 85)]"

definition early_sample_data :: dataframe where
  "early_sample_data = [(- 2, 80, 9), (0, 92, 11), (2, 350, 26)]"

fun linear_at :: "series \<Rightarrow> real \<Rightarrow> error + real" where
  "linear_at [] t = Inl DomainError"
| "linear_at [(x, y)] t = (if t = x then Inr y else Inl DomainError)"
| "linear_at ((x0, y0) # (x1, y1) # s) t =
     (if t < x0 then Inl DomainError
      else if t \<le> x1 then Inr (y0 + (y1 - y0) * (t - x0) / (x1 - x0))
      else linear_at ((x1, y1) # s) t)"

definition example_interpolate :: "series \<Rightarrow> error + signal" where
  "example_interpolate s = Inr (linear_at s)"

subsection \<open>\<^verbatim>\<open>interpolate\<close>\<close>

text \<open>
  Modelled from the spec: \<^verbatim>\<open>interpolate\<close> belongs to the \<^verbatim>\<open>modsim\<close> library and is not in
  the notebook. Section 3 of the specification: the interpolated signal is "a function
  object wrapping discrete (time, value) observations and producing continuous estimates
  between them", and "evaluation is defined only within/near the observed time range";
  section 7: "DomainError (forcing signal queried outside supported range)". The supported
  range of a column is the interval from its first to its last label, \<open>in_range\<close>; inside
  it the estimate is the piecewise linear one.
\<close>

definition in_range :: "series \<Rightarrow> real \<Rightarrow> bool" where
  "in_range s t = (s \<noteq> [] \<and> fst (hd s) \<le> t \<and> t \<le> fst (last s))"

definition interpolate :: "series \<Rightarrow> error + signal" where
  "interpolate s = Inr (\<lambda>t. if in_range s t then linear_at s t else Inl DomainError)"

text \<open>The system that \<open>make_system\<close> builds from the example data with this interpolation.\<close>

definition measured_system :: system where
  "measured_system =
     \<lparr>G0 = 290, k1 = 3 / 100, k2 = 2 / 100, k3 = 1 / 100000,
      init = \<lparr>G = 290, X = 0\<rparr>, Gb = 92, Ib = 11,
      I = (\<lambda>t. if in_range (insulin example_data) t then linear_at (insulin example_data) t
               else Inl DomainError),
      t_0 = 0, t_end = 6, dt = 2\<rparr>"

text \<open>Values the runs on the example systems are compared with: the trajectories of
  \<open>run_simulation\<close> on \<open>example_system\<close> and on \<open>overshoot_system\<close>, a system with a single
  step and the trajectory of \<open>run_ode_solver\<close> on it, and the example system with a
  negative step.\<close>

definition example_frame :: frame where
  "example_frame =
     [(0, \<lparr>G = 290, X = 0\<rparr>), (2, \<lparr>G = 6953 / 25, X = 0\<rparr>),
      (4, \<lparr>G = 333691 / 1250, X = 1 / 50000\<rparr>),
      (6, \<lparr>G = 8013904809 / 31250000, X = 37 / 625000\<rparr>)]"

definition one_step_system :: system where
  "one_step_system = example_system\<lparr>t_end := 2\<rparr>"

definition one_step_frame :: frame where
  "one_step_frame = [(0, \<lparr>G = 290, X = 0\<rparr>), (2, \<lparr>G = 696191 / 2500, X = 1 / 100000\<rparr>)]"

definition overshoot_frame :: frame where
  "overshoot_frame =
     [(0, \<lparr>G = 290, X = 0\<rparr>), (2, \<lparr>G = 6953 / 25, X = 0\<rparr>),
      (4, \<lparr>G = 333691 / 1250, X = 1 / 50000\<rparr>)]"


section \<open>Lemmas\<close>

subsection \<open>The times of \<open>linrange\<close>\<close>

text \<open>With a positive step the loop ends, after \<open>\<lceil>(stop - start) / step\<rceil>\<close> times; it
  returns at all only if the step is positive or there is nothing to do.\<close>

lemma linrange_grid:
  "0 < h \<Longrightarrow> nat \<lceil>(b - a) / h\<rceil> = n \<Longrightarrow> linrange a b h = Some (grid a h n)"
proof (induction n arbitrary: a)
  case 0
  then have "(b - a) / h \<le> 0" by simp
  with 0 have "\<not> a < b" by (simp add: divide_le_0_iff)
  then show ?case by (subst linrange.simps) simp
next
  case (Suc n)
  then have "0 < \<lceil>(b - a) / h\<rceil>" by linarith
  then have pos: "0 < (b - a) / h" by simp
  with Suc have ab: "a < b" by (simp add: zero_less_divide_iff)
  have "(b - (a + h)) / h = (b - a) / h - 1" using Suc.prems(1) by (simp add: field_simps)
  then have "nat \<lceil>(b - (a + h)) / h\<rceil> = n" using Suc.prems(2) by simp
  from Suc.IH[OF Suc.prems(1) this] ab show ?case
    by (subst linrange.simps) simp
qed

lemma linrange_stop_le_start: "b \<le> a \<Longrightarrow> linrange a b h = Some []"
  by (subst linrange.simps) simp

lemma linrange_returns:
  assumes "linrange a b h = Some ts"
  shows "b \<le> a \<or> 0 < h"
  using assms
proof (rule linrange.raw_induct [where P = "\<lambda>a b h ts. b \<le> a \<or> 0 < h", rotated])
  fix lr :: "real \<Rightarrow> real \<Rightarrow> real \<Rightarrow> real list option" and start stop step :: real and y
  assume IH: "\<And>start stop step y. lr start stop step = Some y \<Longrightarrow> stop \<le> start \<or> 0 < step"
    and eq: "(if start < stop then Option.bind (lr (start + step) stop step) (\<lambda>ts. Some (start # ts))
             else Some []) = Some y"
  show "stop \<le> start \<or> 0 < step"
  proof (cases "start < stop")
    case True
    with eq obtain ts' where "lr (start + step) stop step = Some ts'"
      by (auto simp: bind_eq_Some_conv)
    from IH [OF this] True show ?thesis by linarith
  next
    case False
    then show ?thesis by simp
  qed
qed


subsection \<open>The loop of \<open>run_simulation\<close>\<close>

text \<open>While the labels grow, a read finds the row written last and a write appends:
  the loop builds the trajectory \<open>steps\<close>.\<close>

lemma row_get_append_last:
  "\<forall>k \<in> fst ` set pre. k \<noteq> t \<Longrightarrow> row_get (pre @ [(t, st)]) t = Inr st"
  by (induction pre) auto

lemma row_set_append_new:
  "\<forall>k \<in> fst ` set fr. k \<noteq> t \<Longrightarrow> row_set fr t s = fr @ [(t, s)]"
  by (induction fr) auto

lemma for_loop_steps:
  assumes "0 < dt sys"
  shows "\<forall>k \<in> fst ` set pre. k < t \<Longrightarrow>
    for_loop sys uf (grid t (dt sys) n) (pre @ [(t, st)]) =
      (case steps uf sys t st n of Inl e \<Rightarrow> Inl e | Inr rest \<Rightarrow> Inr (pre @ rest))"
proof (induction n arbitrary: pre t st)
  case 0
  then show ?case by simp
next
  case (Suc n)
  have get: "row_get (pre @ [(t, st)]) t = Inr st"
    using Suc.prems by (intro row_get_append_last) auto
  show ?case
  proof (cases "uf st t sys")
    case (Inl e)
    then show ?thesis using get by simp
  next
    case (Inr st')
    have set: "row_set (pre @ [(t, st)]) (t + dt sys) st' = (pre @ [(t, st)]) @ [(t + dt sys, st')]"
      using Suc.prems assms by (intro row_set_append_new) fastforce
    have keys: "\<forall>k \<in> fst ` set (pre @ [(t, st)]). k < t + dt sys"
      using Suc.prems assms by fastforce
    show ?thesis
      using get Inr Suc.IH [OF keys, of st']
      by (simp add: set split: sum.splits)
  qed
qed

lemma run_simulation_steps:
  assumes "0 < dt sys"
  shows "run_simulation sys uf = Some (steps uf sys (t_0 sys) (init sys) (n_steps sys))"
proof -
  have "linrange (t_0 sys) (t_end sys) (dt sys) = Some (grid (t_0 sys) (dt sys) (n_steps sys))"
    using assms by (intro linrange_grid) (simp_all add: n_steps_def)
  moreover have "for_loop sys uf (grid (t_0 sys) (dt sys) (n_steps sys)) ([] @ [(t_0 sys, init sys)])
     = (case steps uf sys (t_0 sys) (init sys) (n_steps sys) of Inl e \<Rightarrow> Inl e | Inr rest \<Rightarrow> Inr ([] @ rest))"
    using assms by (intro for_loop_steps) simp_all
  ultimately show ?thesis
    by (simp add: run_simulation_def split: sum.splits)
qed

lemma run_simulation_no_step:
  assumes "t_end sys \<le> t_0 sys"
  shows "run_simulation sys uf = Some (Inr [(t_0 sys, init sys)])"
  using assms by (simp add: run_simulation_def linrange_stop_le_start)

lemma run_simulation_returns:
  assumes "run_simulation sys uf = Some r"
  shows "(t_end sys \<le> t_0 sys \<and> r = Inr [(t_0 sys, init sys)]) \<or>
         (0 < dt sys \<and> r = steps uf sys (t_0 sys) (init sys) (n_steps sys))"
proof -
  from assms obtain ts where "linrange (t_0 sys) (t_end sys) (dt sys) = Some ts"
    by (auto simp: run_simulation_def split: option.splits)
  then have "t_end sys \<le> t_0 sys \<or> 0 < dt sys" by (rule linrange_returns)
  then show ?thesis
    using assms run_simulation_no_step [of sys uf] run_simulation_steps [of sys uf] by auto
qed

subsection \<open>Times and states of a trajectory\<close>

lemma length_grid: "length (grid a h n) = n"
  by (induction n arbitrary: a) auto

lemma nth_grid: "i < n \<Longrightarrow> grid a h n ! i = a + real i * h"
proof (induction n arbitrary: a i)
  case 0 then show ?case by simp
next
  case (Suc n) then show ?case by (cases i) (auto simp: algebra_simps)
qed

lemma steps_times: "steps uf sys t st n = Inr fr \<Longrightarrow> map fst fr = grid t (dt sys) (Suc n)"
  by (induction n arbitrary: t st fr) (auto split: sum.splits)

lemma steps_first: "steps uf sys t st n = Inr fr \<Longrightarrow> fr ! 0 = (t, st)"
  by (cases n) (auto split: sum.splits)

lemma steps_successor:
  "steps uf sys t st n = Inr fr \<Longrightarrow> i < n \<Longrightarrow>
     uf (snd (fr ! i)) (fst (fr ! i)) sys = Inr (snd (fr ! Suc i))"
proof (induction n arbitrary: t st fr i)
  case 0 then show ?case by simp
next
  case (Suc n)
  then obtain st' rest where a: "uf st t sys = Inr st'" and b: "steps uf sys (t + dt sys) st' n = Inr rest"
    and c: "fr = (t, st) # rest" by (auto split: sum.splits)
  show ?case
  proof (cases i)
    case 0
    then show ?thesis using a c steps_first [OF b] by simp
  next
    case (Suc j)
    then show ?thesis using Suc.IH [OF b, of j] Suc.prems c by simp
  qed
qed

lemma steps_total:
  "(\<And>i st. i < n \<Longrightarrow> \<exists>st'. uf st (t + real i * dt sys) sys = Inr st') \<Longrightarrow>
     \<exists>fr. steps uf sys t st n = Inr fr"
proof (induction n arbitrary: t st)
  case 0
  then show ?case by simp
next
  case (Suc n)
  from Suc.prems [of 0 st] obtain st' where a: "uf st t sys = Inr st'" by auto
  have "\<exists>st'. uf s (t + dt sys + real i * dt sys) sys = Inr st'" if "i < n" for i s
  proof -
    have eq: "t + dt sys + real i * dt sys = t + real (Suc i) * dt sys"
      by (simp add: algebra_simps)
    from Suc.prems [of "Suc i" s] that show ?thesis unfolding eq by simp
  qed
  from Suc.IH [of "t + dt sys" st', OF this] obtain fr
    where "steps uf sys (t + dt sys) st' n = Inr fr" by blast
  with a show ?case by simp
qed

lemma steps_length: "steps uf sys t st n = Inr fr \<Longrightarrow> length fr = Suc n"
  using steps_times [of uf sys t st n fr] length_grid [of t "dt sys" "Suc n"]
  by (metis length_map)

lemma steps_time_nth:
  "steps uf sys t st n = Inr fr \<Longrightarrow> i \<le> n \<Longrightarrow> fst (fr ! i) = t + real i * dt sys"
proof -
  assume a: "steps uf sys t st n = Inr fr" and b: "i \<le> n"
  have "fst (fr ! i) = map fst fr ! i"
    using steps_length [OF a] b by simp
  also have "\<dots> = grid t (dt sys) (Suc n) ! i"
    using steps_times [OF a] by simp
  also have "\<dots> = t + real i * dt sys"
    using b by (intro nth_grid) simp
  finally show ?thesis .
qed

lemma run_simulation_shape:
  assumes "run_simulation sys uf = Some (Inr fr)"
  shows "fr \<noteq> [] \<and> fr ! 0 = (t_0 sys, init sys)"
  using run_simulation_returns [OF assms] steps_first [of uf sys "t_0 sys" "init sys" "n_steps sys" fr]
    steps_length [of uf sys "t_0 sys" "init sys" "n_steps sys" fr]
  by auto

lemma run_simulation_successor:
  assumes "run_simulation sys uf = Some (Inr fr)" and "Suc i < length fr"
  shows "0 < dt sys \<and> fst (fr ! Suc i) = fst (fr ! i) + dt sys \<and>
         uf (snd (fr ! i)) (fst (fr ! i)) sys = Inr (snd (fr ! Suc i))"
proof -
  from run_simulation_returns [OF assms(1)] assms(2)
  have pos: "0 < dt sys" and st: "steps uf sys (t_0 sys) (init sys) (n_steps sys) = Inr fr"
    by auto
  have i: "i < n_steps sys" using steps_length [OF st] assms(2) by simp
  have "fst (fr ! Suc i) = t_0 sys + real (Suc i) * dt sys"
    using i by (intro steps_time_nth [OF st]) simp
  moreover have "fst (fr ! i) = t_0 sys + real i * dt sys"
    using i by (intro steps_time_nth [OF st]) simp
  ultimately have "fst (fr ! Suc i) = fst (fr ! i) + dt sys"
    by (simp add: algebra_simps)
  with pos steps_successor [OF st i] show ?thesis by simp
qed

lemma run_simulation_total:
  assumes "0 < dt sys"
    and "\<And>i st. i < n_steps sys \<Longrightarrow> \<exists>st'. uf st (t_0 sys + real i * dt sys) sys = Inr st'"
  shows "\<exists>fr. run_simulation sys uf = Some (Inr fr)"
proof -
  from steps_total [of "n_steps sys" uf "t_0 sys" sys "init sys", OF assms(2)]
  obtain fr where "steps uf sys (t_0 sys) (init sys) (n_steps sys) = Inr fr" by blast
  then show ?thesis using run_simulation_steps [OF assms(1), of uf] by simp
qed

subsection \<open>The number of steps\<close>

lemma n_steps_bounds:
  assumes "0 < dt sys" and "t_0 sys \<le> t_end sys"
  shows "t_end sys \<le> t_0 sys + real (n_steps sys) * dt sys"
    and "t_0 sys + real (n_steps sys) * dt sys < t_end sys + dt sys"
proof -
  let ?q = "(t_end sys - t_0 sys) / dt sys"
  have q0: "0 \<le> ?q" using assms by simp
  then have c0: "0 \<le> \<lceil>?q\<rceil>" by simp
  have n: "real (n_steps sys) = of_int \<lceil>?q\<rceil>"
    unfolding n_steps_def using c0 by simp
  have "?q \<le> real (n_steps sys)" unfolding n by linarith
  then have "t_end sys - t_0 sys \<le> real (n_steps sys) * dt sys"
    using assms(1) by (simp add: pos_divide_le_eq)
  then show "t_end sys \<le> t_0 sys + real (n_steps sys) * dt sys"
    by simp
  have "real (n_steps sys) - 1 < ?q" unfolding n by linarith
  then have "(real (n_steps sys) - 1) * dt sys < t_end sys - t_0 sys"
    using assms(1) by (simp add: pos_less_divide_eq)
  then show "t_0 sys + real (n_steps sys) * dt sys < t_end sys + dt sys"
    by (simp add: algebra_simps)
qed

lemma n_steps_multiple:
  assumes "0 < dt sys" and "t_end sys = t_0 sys + real m * dt sys"
  shows "n_steps sys = m"
proof -
  have "(t_end sys - t_0 sys) / dt sys = real m" using assms by simp
  then show ?thesis by (simp add: n_steps_def)
qed

subsection \<open>Lookup by label\<close>

lemma series_getitem_Inr:
  "series_getitem s key = Inr v \<longleftrightarrow> filter (\<lambda>(l, v). l = key) s = [(key, v)]"
proof (cases "filter (\<lambda>(l, v). l = key) s")
  case Nil
  then show ?thesis by (simp add: series_getitem_def)
next
  case (Cons a rest)
  obtain l w where a: "a = (l, w)" by (cases a)
  have "a \<in> set (filter (\<lambda>(l, v). l = key) s)" using Cons by simp
  then have l: "l = key" using a by simp
  show ?thesis
  proof (cases rest)
    case Nil
    then show ?thesis using Cons a l by (simp add: series_getitem_def)
  next
    case (Cons b rest')
    then show ?thesis using \<open>filter (\<lambda>(l, v). l = key) s = a # rest\<close> a
      by (simp add: series_getitem_def)
  qed
qed

lemma filter_glucose:
  "filter (\<lambda>(l, v). l = key) (glucose data) = map (\<lambda>(t, g, i). (t, g)) (filter (\<lambda>r. fst r = key) data)"
  by (induction data) (auto simp: glucose_def)

lemma filter_insulin:
  "filter (\<lambda>(l, v). l = key) (insulin data) = map (\<lambda>(t, g, i). (t, i)) (filter (\<lambda>r. fst r = key) data)"
  by (induction data) (auto simp: insulin_def)

lemma baseline_row:
  assumes "series_getitem (glucose data) key = Inr g"
    and "series_getitem (insulin data) key = Inr i"
  shows "filter (\<lambda>r. fst r = key) data = [(key, g, i)]"
  using assms unfolding series_getitem_Inr filter_glucose filter_insulin
  by (cases "filter (\<lambda>r. fst r = key) data") auto

subsection \<open>Queries of the forcing signal\<close>

text \<open>Neither function handles an exception of \<open>I(t)\<close>; the interpolated signal raises
  outside the range of its column.\<close>

lemma query_failure_propagates:
  assumes "I sys t = Inl e"
  shows "update_func st t sys = Inl e \<and> slope_func st t sys = Inl e"
  using assms by (simp add: update_func_def slope_func_def)

lemma interpolate_outside:
  assumes "interpolate s = Inr sig" and "\<not> in_range s t"
  shows "sig t = Inl DomainError"
  using assms by (auto simp: interpolate_def)

subsection \<open>A step that is not positive\<close>


section \<open>Theorems\<close>

subsection \<open>The update and slope functions\<close>

text \<open>
  C1. For every state \<open>(G, X)\<close>, every time \<open>t\<close> at which the forcing signal is defined and
  every system, \<open>update_func\<close> returns exactly the state
  \<open>(G + (-k1*(G - Gb) - X*G)*dt, X + (k3*(I(t) - Ib) - k2*X)*dt)\<close>: one forward-difference
  step of the minimal model.
\<close>

theorem update_func_forward_step:
  assumes "I sys t = Inr v"
  shows "update_func st t sys =
           Inr \<lparr>G = G st + (- k1 sys * (G st - Gb sys) - X st * G st) * dt sys,
                X = X st + (k3 sys * (v - Ib sys) - k2 sys * X st) * dt sys\<rparr>"
  using assms by (simp add: update_func_def)

theorem update_func_forward_step_witness:
  "I example_system 0 = Inr 11 \<and>
   update_func \<lparr>G = 290, X = 0\<rparr> 0 example_system = Inr \<lparr>G = 27812 / 100, X = 0\<rparr>"
proof -
  have h: "I example_system 0 = Inr 11"
    by (simp add: example_system_def example_signal_def)
  show ?thesis
    using h update_func_forward_step [OF h, of "\<lparr>G = 290, X = 0\<rparr>"]
    by (simp add: example_system_def)
qed

text \<open>
  C4. For every state, every time \<open>t\<close> at which the forcing signal is defined and every
  system, the state returned by \<open>update_func\<close> is the input state plus \<open>dt\<close> times the pair
  returned by \<open>slope_func\<close> at the same arguments, componentwise in \<open>G\<close> and \<open>X\<close>.
\<close>

theorem update_func_is_state_plus_dt_slope:
  assumes "I sys t = Inr v"
  shows "\<exists>dGdt dXdt. slope_func st t sys = Inr (dGdt, dXdt) \<and>
           update_func st t sys =
             Inr \<lparr>G = G st + dt sys * dGdt, X = X st + dt sys * dXdt\<rparr>"
  using assms by (simp add: update_func_def slope_func_def mult.commute)

theorem update_func_is_state_plus_dt_slope_witness:
  "I example_system 4 = Inr 13 \<and>
   (\<exists>dGdt dXdt. slope_func \<lparr>G = 100, X = 1 / 10\<rparr> 4 example_system = Inr (dGdt, dXdt) \<and>
      update_func \<lparr>G = 100, X = 1 / 10\<rparr> 4 example_system =
        Inr \<lparr>G = 100 + dt example_system * dGdt, X = 1 / 10 + dt example_system * dXdt\<rparr>)"
proof -
  have h: "I example_system 4 = Inr 13"
    by (simp add: example_system_def example_signal_def)
  show ?thesis
    using h update_func_is_state_plus_dt_slope [OF h, of "\<lparr>G = 100, X = 1 / 10\<rparr>"]
    by simp
qed

text \<open>
  C5, as the specification states it: with \<open>k1 = k2 = k3 = 0\<close> the slope function returns a
  zero derivative pair and the update function returns its input state, for every state.
  The term \<open>- X * G\<close> of \<open>dGdt\<close> has no rate constant in front of it, so this fails at any
  state with \<open>X \<noteq> 0\<close> and \<open>G \<noteq> 0\<close>: with \<open>G = 100\<close>, \<open>X = 1/10\<close> the slope is \<open>(-10, 0)\<close> and
  the next state is \<open>(80, 1/10)\<close>.
\<close>

theorem zero_rates_not_constant_counterexample:
  "k1 decoupled_system = 0 \<and> k2 decoupled_system = 0 \<and> k3 decoupled_system = 0 \<and>
   slope_func \<lparr>G = 100, X = 1 / 10\<rparr> 0 decoupled_system = Inr (- 10, 0) \<and>
   slope_func \<lparr>G = 100, X = 1 / 10\<rparr> 0 decoupled_system \<noteq> Inr (0, 0) \<and>
   update_func \<lparr>G = 100, X = 1 / 10\<rparr> 0 decoupled_system = Inr \<lparr>G = 80, X = 1 / 10\<rparr> \<and>
   update_func \<lparr>G = 100, X = 1 / 10\<rparr> 0 decoupled_system \<noteq> Inr \<lparr>G = 100, X = 1 / 10\<rparr>"
  by (simp add: decoupled_system_def example_system_def example_signal_def
      slope_func_def update_func_def)

text \<open>
  C5, amended. If \<open>k1 = k2 = k3 = 0\<close> then, for every state \<open>(G, X)\<close> and every time at which
  the forcing signal is defined, the slope function returns \<open>(- X * G, 0)\<close> and the update
  function returns \<open>(G - X * G * dt, X)\<close>, whatever value the signal has: \<open>X\<close> is constant,
  and where \<open>X = 0\<close> (as in the initial state) the derivative pair is zero and the state is
  returned unchanged.
\<close>

theorem zero_rates_slope_and_update:
  assumes "k1 sys = 0" and "k2 sys = 0" and "k3 sys = 0" and "I sys t = Inr v"
  shows "slope_func st t sys = Inr (- X st * G st, 0) \<and>
         update_func st t sys = Inr \<lparr>G = G st - X st * G st * dt sys, X = X st\<rparr> \<and>
         (X st = 0 \<longrightarrow> slope_func st t sys = Inr (0, 0) \<and> update_func st t sys = Inr st)"
  using assms by (simp add: slope_func_def update_func_def)

theorem zero_rates_slope_and_update_witness:
  "k1 decoupled_system = 0 \<and> k2 decoupled_system = 0 \<and> k3 decoupled_system = 0 \<and>
   I decoupled_system 2 = Inr 12 \<and>
   slope_func \<lparr>G = 290, X = 0\<rparr> 2 decoupled_system = Inr (0, 0) \<and>
   update_func \<lparr>G = 290, X = 0\<rparr> 2 decoupled_system = Inr \<lparr>G = 290, X = 0\<rparr>"
proof -
  have h: "k1 decoupled_system = 0" "k2 decoupled_system = 0" "k3 decoupled_system = 0"
    "I decoupled_system 2 = Inr 12"
    by (simp_all add: decoupled_system_def example_system_def example_signal_def)
  show ?thesis
    using h zero_rates_slope_and_update [OF h, of "\<lparr>G = 290, X = 0\<rparr>"]
    by simp
qed

text \<open>
  C6. For every state and every system whose forcing signal is the interpolation of a
  column of observations, if \<open>update_func\<close> or \<open>slope_func\<close> is called with a time outside
  the range the signal supports (before the first or after the last observed time), the
  call fails with the signal's \<open>DomainError\<close>: no value is extrapolated and no state or
  derivative pair is returned.
\<close>

theorem signal_outside_range_fails:
  assumes "interpolate s = Inr (I sys)" and "\<not> in_range s t"
  shows "update_func st t sys = Inl DomainError \<and> slope_func st t sys = Inl DomainError"
proof -
  from assms have "I sys t = Inl DomainError" by (rule interpolate_outside)
  then show ?thesis by (rule query_failure_propagates)
qed

theorem signal_outside_range_fails_witness:
  "make_system interpolate example_params example_data = Inr measured_system \<and>
   interpolate (insulin example_data) = Inr (I measured_system) \<and>
   \<not> in_range (insulin example_data) 7 \<and>
   update_func \<lparr>G = 290, X = 0\<rparr> 7 measured_system = Inl DomainError \<and>
   slope_func \<lparr>G = 290, X = 0\<rparr> 7 measured_system = Inl DomainError \<and>
   update_func \<lparr>G = 290, X = 0\<rparr> 6 measured_system = Inr \<lparr>G = 27812 / 100, X = 37 / 25000\<rparr>"
proof -
  have h1: "interpolate (insulin example_data) = Inr (I measured_system)"
    by (simp add: interpolate_def measured_system_def)
  have h2: "\<not> in_range (insulin example_data) 7"
    by (simp add: in_range_def insulin_def example_data_def)
  have g: "series_getitem (glucose example_data) 0 = Inr 92"
    and i: "series_getitem (insulin example_data) 0 = Inr 11"
    and a: "get_first_label example_data = Inr 0"
    and b: "get_last_label example_data = Inr 6"
    by (simp_all add: example_data_def series_getitem_def glucose_def insulin_def
      get_first_label_def get_last_label_def)
  have mk: "make_system interpolate example_params example_data = Inr measured_system"
    by (simp add: make_system_def g i a b interpolate_def example_params_def
      measured_system_def)
  have inside: "update_func \<lparr>G = 290, X = 0\<rparr> 6 measured_system =
      Inr \<lparr>G = 27812 / 100, X = 37 / 25000\<rparr>"
    by (simp add: update_func_def measured_system_def in_range_def insulin_def example_data_def)
  show ?thesis
    using mk h1 h2 inside signal_outside_range_fails [OF h1 h2, of "\<lparr>G = 290, X = 0\<rparr>"]
    by simp
qed

subsection \<open>The fixed-step driver\<close>

text \<open>
  C2, as the specification states it: the trajectory has entries only at times between
  \<open>t_0\<close> and \<open>t_end\<close>, and includes both ends. With \<open>t_0 = 0\<close>, \<open>t_end = 3\<close> and \<open>dt = 2\<close> the
  loop runs for \<open>t = 0\<close> and \<open>t = 2\<close> and writes the rows at \<open>2\<close> and \<open>4\<close>: the last entry is at
  time \<open>4\<close>, beyond \<open>t_end\<close>, and there is no entry at \<open>t_end\<close>.
\<close>

theorem run_simulation_overshoots_counterexample:
  "t_0 overshoot_system = 0 \<and> t_end overshoot_system = 3 \<and> dt overshoot_system = 2 \<and>
   run_simulation overshoot_system update_func =
     Some (Inr [(0, \<lparr>G = 290, X = 0\<rparr>), (2, \<lparr>G = 6953 / 25, X = 0\<rparr>),
                (4, \<lparr>G = 333691 / 1250, X = 1 / 50000\<rparr>)])"
proof -
  have "run_simulation overshoot_system update_func =
     Some (Inr [(0, \<lparr>G = 290, X = 0\<rparr>), (2, \<lparr>G = 6953 / 25, X = 0\<rparr>),
                (4, \<lparr>G = 333691 / 1250, X = 1 / 50000\<rparr>)])"
    by code_simp
  then show ?thesis
    by (simp add: overshoot_system_def example_system_def)
qed

text \<open>
  C2, amended. For every system configuration with \<open>dt > 0\<close> and \<open>t_0 \<le> t_end\<close>, the
  trajectory that the driver returns has its first entry at \<open>t_0\<close> and entries only at
  times from \<open>t_0\<close> to less than \<open>t_end + dt\<close>: an entry can lie beyond \<open>t_end\<close>, by less
  than one step. When \<open>t_end - t_0\<close> is a whole number of steps \<open>dt\<close>, the time sequence
  includes both ends, the last entry being exactly at \<open>t_end\<close>, and no entry lies beyond
  \<open>t_end\<close>. (The bounds use of \<open>linrange\<close> only that its times are \<open>t_0, t_0 + dt, ...\<close>
  and stay below \<open>t_end\<close>, and that a span of \<open>m\<close> whole steps gives \<open>m\<close> times.)
\<close>

theorem run_simulation_entry_times:
  assumes "0 < dt sys" and "t_0 sys \<le> t_end sys"
    and "run_simulation sys uf = Some (Inr fr)"
  shows "fr \<noteq> [] \<and> fst (fr ! 0) = t_0 sys \<and>
         (\<forall>i < length fr. t_0 sys \<le> fst (fr ! i) \<and> fst (fr ! i) < t_end sys + dt sys) \<and>
         (\<forall>m::nat. t_end sys = t_0 sys + real m * dt sys \<longrightarrow>
            fst (last fr) = t_end sys \<and> (\<forall>i < length fr. fst (fr ! i) \<le> t_end sys))"
proof -
  from run_simulation_steps [OF assms(1), of uf] assms(3)
  have st: "steps uf sys (t_0 sys) (init sys) (n_steps sys) = Inr fr" by simp
  have len: "length fr = Suc (n_steps sys)" by (rule steps_length [OF st])
  then have ne: "fr \<noteq> []" by auto
  have time: "fst (fr ! i) = t_0 sys + real i * dt sys" if "i \<le> n_steps sys" for i
    using that by (rule steps_time_nth [OF st])
  have "last fr = fr ! n_steps sys" using len ne by (simp add: last_conv_nth)
  then have lst: "fst (last fr) = t_0 sys + real (n_steps sys) * dt sys"
    using time [of "n_steps sys"] by simp
  have hi: "fst (last fr) < t_end sys + dt sys"
    unfolding lst using assms(1,2) by (rule n_steps_bounds)
  have ord: "t_0 sys \<le> fst (fr ! i) \<and> fst (fr ! i) \<le> fst (last fr)" if "i < length fr" for i
  proof -
    from that len have i: "i \<le> n_steps sys" by simp
    then have "real i * dt sys \<le> real (n_steps sys) * dt sys"
      using assms(1) by (simp add: mult_le_cancel_right)
    moreover have "0 \<le> real i * dt sys" using assms(1) by simp
    ultimately show ?thesis unfolding time [OF i] lst by simp
  qed
  have rng: "\<forall>i < length fr. t_0 sys \<le> fst (fr ! i) \<and> fst (fr ! i) < t_end sys + dt sys"
  proof (intro allI impI)
    fix i assume "i < length fr"
    from ord [OF this] hi
    show "t_0 sys \<le> fst (fr ! i) \<and> fst (fr ! i) < t_end sys + dt sys" by simp
  qed
  have whole: "\<forall>m::nat. t_end sys = t_0 sys + real m * dt sys \<longrightarrow>
      fst (last fr) = t_end sys \<and> (\<forall>i < length fr. fst (fr ! i) \<le> t_end sys)"
  proof (intro allI impI)
    fix m :: nat assume m: "t_end sys = t_0 sys + real m * dt sys"
    have "n_steps sys = m" using assms(1) m by (rule n_steps_multiple)
    then have l: "fst (last fr) = t_end sys" unfolding lst m by simp
    have "\<forall>i < length fr. fst (fr ! i) \<le> t_end sys"
    proof (intro allI impI)
      fix i assume "i < length fr"
      from ord [OF this] l show "fst (fr ! i) \<le> t_end sys" by simp
    qed
    with l show "fst (last fr) = t_end sys \<and> (\<forall>i < length fr. fst (fr ! i) \<le> t_end sys)" ..
  qed
  have first: "fst (fr ! 0) = t_0 sys" using time [of 0] by simp
  from ne first rng whole show ?thesis by blast
qed

theorem run_simulation_entry_times_witness:
  "0 < dt overshoot_system \<and> t_0 overshoot_system \<le> t_end overshoot_system \<and>
   run_simulation overshoot_system update_func = Some (Inr overshoot_frame) \<and>
   fst (overshoot_frame ! 0) = t_0 overshoot_system \<and>
   t_end overshoot_system < fst (overshoot_frame ! 2) \<and>
   fst (overshoot_frame ! 2) < t_end overshoot_system + dt overshoot_system \<and>
   t_end example_system = t_0 example_system + real 3 * dt example_system \<and>
   run_simulation example_system update_func = Some (Inr example_frame) \<and>
   fst (last example_frame) = t_end example_system"
proof -
  have a1: "0 < dt overshoot_system" and a2: "t_0 overshoot_system \<le> t_end overshoot_system"
    by (simp_all add: overshoot_system_def example_system_def)
  have a3: "run_simulation overshoot_system update_func = Some (Inr overshoot_frame)"
    by code_simp
  have a4: "2 < length overshoot_frame"
    and a5: "t_end overshoot_system < fst (overshoot_frame ! 2)"
    by (simp_all add: overshoot_frame_def overshoot_system_def example_system_def)
  from run_simulation_entry_times [OF a1 a2 a3] a4
  have a: "fst (overshoot_frame ! 0) = t_0 overshoot_system \<and>
      fst (overshoot_frame ! 2) < t_end overshoot_system + dt overshoot_system"
    by blast
  have b1: "0 < dt example_system" and b2: "t_0 example_system \<le> t_end example_system"
    and b4: "t_end example_system = t_0 example_system + real 3 * dt example_system"
    by (simp_all add: example_system_def)
  have b3: "run_simulation example_system update_func = Some (Inr example_frame)"
    by code_simp
  from run_simulation_entry_times [OF b1 b2 b3] b4
  have b: "fst (last example_frame) = t_end example_system"
    by blast
  from a1 a2 a3 a5 a b4 b3 b show ?thesis by blast
qed

text \<open>
  C3. For every system configuration and update function, the trajectory returned by the
  driver has its first entry equal to the system's initial state, recorded at \<open>t_0\<close>, and
  its times are strictly increasing, consecutive times differing by exactly \<open>dt\<close>. The
  driver does return a trajectory when \<open>dt\<close> is positive and the update function succeeds
  at the times \<open>t_0, t_0 + dt, ...\<close> of the steps.
\<close>

theorem run_simulation_first_entry_and_spacing:
  "(0 < dt sys \<and>
    (\<forall>i < n_steps sys. \<forall>st. \<exists>st'. uf st (t_0 sys + real i * dt sys) sys = Inr st') \<longrightarrow>
      (\<exists>fr. run_simulation sys uf = Some (Inr fr))) \<and>
   (\<forall>fr. run_simulation sys uf = Some (Inr fr) \<longrightarrow>
      fr \<noteq> [] \<and> fr ! 0 = (t_0 sys, init sys) \<and>
      (\<forall>i. Suc i < length fr \<longrightarrow>
         fst (fr ! i) < fst (fr ! Suc i) \<and> fst (fr ! Suc i) = fst (fr ! i) + dt sys))"
proof (intro conjI impI allI)
  assume "0 < dt sys \<and>
    (\<forall>i < n_steps sys. \<forall>st. \<exists>st'. uf st (t_0 sys + real i * dt sys) sys = Inr st')"
  then show "\<exists>fr. run_simulation sys uf = Some (Inr fr)"
    by (intro run_simulation_total) auto
next
  fix fr assume "run_simulation sys uf = Some (Inr fr)"
  then show "fr \<noteq> []" "fr ! 0 = (t_0 sys, init sys)"
    using run_simulation_shape by auto
next
  fix fr i assume a: "run_simulation sys uf = Some (Inr fr)" and b: "Suc i < length fr"
  from run_simulation_successor [OF a b]
  show "fst (fr ! i) < fst (fr ! Suc i)" "fst (fr ! Suc i) = fst (fr ! i) + dt sys"
    by auto
qed

theorem run_simulation_first_entry_and_spacing_witness:
  "0 < dt example_system \<and>
   run_simulation example_system update_func = Some (Inr example_frame) \<and>
   example_frame ! 0 = (t_0 example_system, init example_system) \<and>
   Suc 0 < length example_frame \<and>
   fst (example_frame ! 0) < fst (example_frame ! Suc 0) \<and>
   fst (example_frame ! Suc 0) = fst (example_frame ! 0) + dt example_system"
proof -
  have pos: "0 < dt example_system"
    by (simp add: example_system_def)
  have n: "n_steps example_system = 3"
    by (simp add: n_steps_def example_system_def)
  have sig: "example_signal (real i * 2) = Inr (11 + real i * 2 / 2)" if "i < 3" for i
    using that by (simp add: example_signal_def)
  have tot: "\<forall>i < n_steps example_system. \<forall>st. \<exists>st'.
      update_func st (t_0 example_system + real i * dt example_system) example_system = Inr st'"
    unfolding n by (simp add: update_func_def example_system_def sig)
  have run: "run_simulation example_system update_func = Some (Inr example_frame)"
    by code_simp
  have len: "Suc 0 < length example_frame"
    by (simp add: example_frame_def)
  note spacing = run_simulation_first_entry_and_spacing [of example_system update_func]
  from spacing pos tot have "\<exists>fr. run_simulation example_system update_func = Some (Inr fr)"
    by blast
  moreover from spacing run len have "example_frame ! 0 = (t_0 example_system, init example_system) \<and>
      fst (example_frame ! 0) < fst (example_frame ! Suc 0) \<and>
      fst (example_frame ! Suc 0) = fst (example_frame ! 0) + dt example_system"
    by blast
  ultimately show ?thesis using pos run len by blast
qed




subsection \<open>The solver\<close>

text \<open>
  C8. Each single step of \<open>run_ode_solver\<close> applied to a slope function \<open>f\<close> is a step of
  Ralston's method as the specification writes it: for consecutive entries \<open>(t, state)\<close>
  and \<open>(t', state')\<close> of the returned trajectory, with \<open>s1 = f(state, t)\<close> and
  \<open>s2 = f(state + (3/4)*dt*s1, t + (3/4)*dt)\<close>, the next state is
  \<open>state' = state + dt * (1/3 * s1 + 2/3 * s2)\<close>, and \<open>t' = t + dt\<close>.
\<close>

theorem run_ode_solver_step_is_ralston:
  assumes "run_ode_solver sys f = Some (Inr (fr, d))" and "Suc i < length fr"
  shows "\<exists>s1 s2.
           f (snd (fr ! i)) (fst (fr ! i)) sys = Inr s1 \<and>
           f \<lparr>G = G (snd (fr ! i)) + 3 / 4 * dt sys * fst s1,
              X = X (snd (fr ! i)) + 3 / 4 * dt sys * snd s1\<rparr>
             (fst (fr ! i) + 3 / 4 * dt sys) sys = Inr s2 \<and>
           snd (fr ! Suc i) =
             \<lparr>G = G (snd (fr ! i)) + dt sys * (1 / 3 * fst s1 + 2 / 3 * fst s2),
              X = X (snd (fr ! i)) + dt sys * (1 / 3 * snd s1 + 2 / 3 * snd s2)\<rparr> \<and>
           fst (fr ! Suc i) = fst (fr ! i) + dt sys"
proof -
  from assms(1) have run: "run_simulation sys (ralston_step f) = Some (Inr fr)"
    by (auto simp: run_ode_solver_def split: option.splits sum.splits)
  from run_simulation_successor [OF run assms(2)]
  have t: "fst (fr ! Suc i) = fst (fr ! i) + dt sys"
    and s: "ralston_step f (snd (fr ! i)) (fst (fr ! i)) sys = Inr (snd (fr ! Suc i))"
    by auto
  from s t show ?thesis
    by (auto simp: ralston_step_def project_def split: sum.splits)
qed

theorem run_ode_solver_step_is_ralston_witness:
  "run_ode_solver one_step_system slope_func = Some (Inr (one_step_frame, \<lparr>step_count = 1\<rparr>)) \<and>
   Suc 0 < length one_step_frame \<and>
   slope_func \<lparr>G = 290, X = 0\<rparr> 0 one_step_system = Inr (- 594 / 100, 0) \<and>
   slope_func \<lparr>G = 290 + 3 / 4 * 2 * (- 594 / 100), X = 0\<rparr> (3 / 2) one_step_system =
     Inr (- 56727 / 10000, 3 / 400000) \<and>
   snd (one_step_frame ! Suc 0) =
     \<lparr>G = 290 + 2 * (1 / 3 * (- 594 / 100) + 2 / 3 * (- 56727 / 10000)),
      X = 0 + 2 * (1 / 3 * 0 + 2 / 3 * (3 / 400000))\<rparr>"
proof -
  have h1: "run_ode_solver one_step_system slope_func =
      Some (Inr (one_step_frame, \<lparr>step_count = 1\<rparr>))"
    by code_simp
  have h2: "Suc 0 < length one_step_frame"
    by (simp add: one_step_frame_def)
  have dt: "dt one_step_system = 2"
    by (simp add: one_step_system_def example_system_def)
  have e0: "one_step_frame ! 0 = (0, \<lparr>G = 290, X = 0\<rparr>)"
    by (simp add: one_step_frame_def)
  have s1: "slope_func \<lparr>G = 290, X = 0\<rparr> 0 one_step_system = Inr (- 594 / 100, 0)"
    by (simp add: slope_func_def one_step_system_def example_system_def example_signal_def)
  from run_ode_solver_step_is_ralston [OF h1 h2] obtain s1' s2' where
    a: "slope_func (snd (one_step_frame ! 0)) (fst (one_step_frame ! 0)) one_step_system = Inr s1'"
    and b: "slope_func
        \<lparr>G = G (snd (one_step_frame ! 0)) + 3 / 4 * dt one_step_system * fst s1',
         X = X (snd (one_step_frame ! 0)) + 3 / 4 * dt one_step_system * snd s1'\<rparr>
        (fst (one_step_frame ! 0) + 3 / 4 * dt one_step_system) one_step_system = Inr s2'"
    and c: "snd (one_step_frame ! Suc 0) =
        \<lparr>G = G (snd (one_step_frame ! 0)) + dt one_step_system * (1 / 3 * fst s1' + 2 / 3 * fst s2'),
         X = X (snd (one_step_frame ! 0)) + dt one_step_system * (1 / 3 * snd s1' + 2 / 3 * snd s2')\<rparr>"
    by blast
  from a s1 e0 have s1': "s1' = (- 594 / 100, 0)" by simp
  have s2: "slope_func \<lparr>G = 290 + 3 / 4 * 2 * (- 594 / 100), X = 0\<rparr> (3 / 2) one_step_system =
      Inr (- 56727 / 10000, 3 / 400000)"
    by (simp add: slope_func_def one_step_system_def example_system_def example_signal_def)
  from b s2 have s2': "s2' = (- 56727 / 10000, 3 / 400000)"
    unfolding e0 s1' dt by simp
  from c have "snd (one_step_frame ! Suc 0) =
     \<lparr>G = 290 + 2 * (1 / 3 * (- 594 / 100) + 2 / 3 * (- 56727 / 10000)),
      X = 0 + 2 * (1 / 3 * 0 + 2 / 3 * (3 / 400000))\<rparr>"
    unfolding e0 s1' s2' dt by simp
  with h1 h2 s1 s2 show ?thesis by blast
qed

subsection \<open>Building the system\<close>

text \<open>
  C10, as the claim states it: \<open>Gb\<close> and \<open>Ib\<close> are the glucose and insulin values of the
  first row of the data. \<^verbatim>\<open>data.glucose[0]\<close> is a lookup of the label \<open>0\<close>: in a table whose
  first sample is at time \<open>-2\<close> and whose second is at time \<open>0\<close>, the baselines are the values
  of the second row, \<open>92\<close> and \<open>11\<close>, not the \<open>80\<close> and \<open>9\<close> of the first.
\<close>

theorem make_system_label_zero_counterexample:
  "map_sum id Gb (make_system example_interpolate example_params early_sample_data) = Inr 92 \<and>
   map_sum id Ib (make_system example_interpolate example_params early_sample_data) = Inr 11 \<and>
   hd early_sample_data = (- 2, 80, 9)"
  by (simp add: make_system_def early_sample_data_def example_interpolate_def
      series_getitem_def glucose_def insulin_def get_first_label_def get_last_label_def)

text \<open>
  C10, amended. For every params \<open>(G0, k1, k2, k3)\<close> and every data table, the system
  returned by \<open>make_system\<close> has the initial state \<open>(G = G0, X = 0)\<close>, the baselines \<open>Gb\<close> and
  \<open>Ib\<close> taken from the glucose and insulin values of the one row whose time label is \<open>0\<close>
  (the first row when the table starts at time \<open>0\<close>), \<open>t_0\<close> and \<open>t_end\<close> taken from the
  first and last time labels of the data, and the step size \<open>dt = 2\<close> always: the caller
  cannot obtain any other step size from \<open>make_system\<close>.
\<close>

theorem make_system_fields:
  assumes "make_system interp p data = Inr sys"
  shows "init sys = \<lparr>G = G0 p, X = 0\<rparr> \<and>
         (\<exists>g i. filter (\<lambda>r. fst r = 0) data = [(0, g, i)] \<and> Gb sys = g \<and> Ib sys = i) \<and>
         data \<noteq> [] \<and> t_0 sys = fst (hd data) \<and> t_end sys = fst (last data) \<and>
         dt sys = 2 \<and>
         (fst (hd data) = 0 \<longrightarrow> Gb sys = fst (snd (hd data)) \<and> Ib sys = snd (snd (hd data)))"
proof -
  from assms obtain g i sig a b where
    g: "series_getitem (glucose data) 0 = Inr g" and
    i: "series_getitem (insulin data) 0 = Inr i" and
    "interp (insulin data) = Inr sig" and
    a: "get_first_label data = Inr a" and b: "get_last_label data = Inr b" and
    sys: "sys = \<lparr>G0 = G0 p, k1 = k1 p, k2 = k2 p, k3 = k3 p,
                init = \<lparr>G = G0 p, X = 0\<rparr>, Gb = g, Ib = i, I = sig,
                t_0 = a, t_end = b, dt = 2\<rparr>"
    by (auto simp: make_system_def split: sum.splits)
  have row: "filter (\<lambda>r. fst r = 0) data = [(0, g, i)]"
    using g i by (rule baseline_row)
  from a b have ne: "data \<noteq> []" and ab: "a = fst (hd data)" "b = fst (last data)"
    by (auto simp: get_first_label_def get_last_label_def split: list.splits)
  have first: "hd data = (0, g, i)" if "fst (hd data) = 0"
  proof -
    from ne that have "filter (\<lambda>r. fst r = 0) data = hd data # filter (\<lambda>r. fst r = 0) (tl data)"
      by (cases data) auto
    with row show ?thesis by simp
  qed
  show ?thesis using sys row ne ab first by auto
qed

theorem make_system_fields_witness:
  "make_system example_interpolate example_params example_data =
     Inr \<lparr>G0 = 290, k1 = 3 / 100, k2 = 2 / 100, k3 = 1 / 100000,
          init = \<lparr>G = 290, X = 0\<rparr>, Gb = 92, Ib = 11, I = linear_at (insulin example_data),
          t_0 = 0, t_end = 6, dt = 2\<rparr> \<and>
   fst (hd example_data) = 0 \<and>
   Gb \<lparr>G0 = 290, k1 = 3 / 100, k2 = 2 / 100, k3 = 1 / 100000,
          init = \<lparr>G = 290, X = 0\<rparr>, Gb = 92, Ib = 11, I = linear_at (insulin example_data),
          t_0 = 0, t_end = 6, dt = 2\<rparr> = fst (snd (hd example_data))"
proof -
  have h: "make_system example_interpolate example_params example_data =
     Inr \<lparr>G0 = 290, k1 = 3 / 100, k2 = 2 / 100, k3 = 1 / 100000,
          init = \<lparr>G = 290, X = 0\<rparr>, Gb = 92, Ib = 11, I = linear_at (insulin example_data),
          t_0 = 0, t_end = 6, dt = 2\<rparr>"
    by (simp add: make_system_def example_data_def example_params_def example_interpolate_def
      series_getitem_def glucose_def insulin_def get_first_label_def get_last_label_def)
  show ?thesis
    using h make_system_fields [OF h] by (simp add: example_data_def)
qed

end
